theory Spec2Isabelle
  imports Main
begin

section \<open>A client of the Draft document service (draftin.py)\<close>

text \<open>
  The module is a thin layer over three libraries: \<^verbatim>\<open>requests\<close> (the network),
  \<^verbatim>\<open>json\<close> and \<^verbatim>\<open>urljoin\<close>. The functions of the module are embedded one by one;
  what a library does is either a small function below (string operations, the
  resolution of a path against a base URL) or a parameter of the embedding (the
  answers of the remote service).
\<close>

subsection \<open>Python values\<close>

text \<open>
  The values the module handles are the ones \<^verbatim>\<open>json\<close> decodes: \<^verbatim>\<open>None\<close>, booleans,
  integers, strings, lists and dictionaries (numbers with a fraction are left out).
  A dictionary is a list of pairs, read with \<open>map_of\<close>. Strings are byte strings.
\<close>

datatype json =
    JNull
  | JBool bool
  | JInt int
  | JStr string
  | JArr "json list"
  | JObj "(string \<times> json) list"

text \<open>Python's truth value of an object, as \<^verbatim>\<open>if x:\<close> and \<^verbatim>\<open>not x\<close> read it.\<close>

fun truthy :: "json \<Rightarrow> bool" where
  "truthy JNull = False"
| "truthy (JBool b) = b"
| "truthy (JInt n) = (n \<noteq> 0)"
| "truthy (JStr s) = (s \<noteq> [])"
| "truthy (JArr xs) = (xs \<noteq> [])"
| "truthy (JObj kvs) = (kvs \<noteq> [])"

subsection \<open>Strings\<close>

text \<open>\<^verbatim>\<open>s.startswith(p)\<close>\<close>

definition startswith :: "string \<Rightarrow> string \<Rightarrow> bool" where
  "startswith s p = (take (length p) s = p)"

text \<open>\<^verbatim>\<open>needle in s\<close> for two strings: \<open>needle\<close> occurs in \<open>s\<close>.\<close>

fun occurs_in :: "string \<Rightarrow> string \<Rightarrow> bool" where
  "occurs_in needle [] = (needle = [])"
| "occurs_in needle (c # cs) = (startswith (c # cs) needle \<or> occurs_in needle cs)"

text \<open>\<^verbatim>\<open>s.lower()\<close>, on the letters A to Z.\<close>

definition lower_char :: "char \<Rightarrow> char" where
  "lower_char c =
     (let n = (of_char c :: nat) in if 65 \<le> n \<and> n \<le> 90 then char_of (n + 32) else c)"

definition lower :: "string \<Rightarrow> string" where
  "lower s = map lower_char s"

text \<open>The decimal numeral of an integer, as \<^verbatim>\<open>'%d' % n\<close> and \<^verbatim>\<open>str(n)\<close> print it.\<close>

fun str_nat :: "nat \<Rightarrow> string" where
  "str_nat n =
     (if n < 10 then [char_of (48 + n)]
      else str_nat (n div 10) @ [char_of (48 + n mod 10)])"

definition str_int :: "int \<Rightarrow> string" where
  "str_int i = (if i < 0 then CHR ''-'' # str_nat (nat (- i)) else str_nat (nat i))"

text \<open>\<^verbatim>\<open>s.split(sep)\<close> for a one-character separator, and \<^verbatim>\<open>sep.join(parts)\<close>.\<close>

fun split_on :: "char \<Rightarrow> string \<Rightarrow> string list" where
  "split_on sep [] = [[]]"
| "split_on sep (c # cs) =
     (if c = sep then [] # split_on sep cs
      else (case split_on sep cs of
              [] \<Rightarrow> [[c]]
            | w # ws \<Rightarrow> (c # w) # ws))"

fun join_with :: "string \<Rightarrow> string list \<Rightarrow> string" where
  "join_with sep [] = []"
| "join_with sep [w] = w"
| "join_with sep (w # v # ws) = w @ sep @ join_with sep (v # ws)"

subsection \<open>Resolving a path against the base URL\<close>

text \<open>
  \<^verbatim>\<open>urljoin(base, url)\<close> is the standard library's. The function below follows the
  algorithm of Python 3 for a base of the shape \<^verbatim>\<open>scheme://host/path\<close> and a reference
  that is a path, absolute or relative, which is what the module passes. Leading
  control characters and spaces, and every tab, line feed and carriage return, are
  taken out of both; the path of the base loses its last segment; a relative
  reference is appended and an absolute one replaces the path; the segments \<^verbatim>\<open>.\<close>
  and \<^verbatim>\<open>..\<close> are resolved, a \<^verbatim>\<open>..\<close> at the root being dropped; and the path is put after
  the host with a slash between them. A reference with a scheme, a host, a query, a
  fragment or parameters (\<^verbatim>\<open>;\<close>) of its own is outside this function, and so is a base
  with any of the last three.
\<close>

definition strip_unsafe :: "string \<Rightarrow> string" where
  "strip_unsafe s =
     filter (\<lambda>c. c \<noteq> CHR 0x09 \<and> c \<noteq> CHR 0x0A \<and> c \<noteq> CHR 0x0D)
       (dropWhile (\<lambda>c. (of_char c :: nat) \<le> 32) s)"

fun resolve_dots :: "string list \<Rightarrow> string list \<Rightarrow> string list" where
  "resolve_dots [] acc = acc"
| "resolve_dots (seg # segs) acc =
     (if seg = ''..'' then resolve_dots segs (butlast acc)
      else if seg = ''.'' then resolve_dots segs acc
      else resolve_dots segs (acc @ [seg]))"

definition urljoin :: "string \<Rightarrow> string \<Rightarrow> string" where
  "urljoin base0 url0 =
     (if base0 = [] then url0
      else if url0 = [] then base0
      else
        let base = strip_unsafe base0;
            url = strip_unsafe url0
        in
          if url = [] then base
          else
            let parts = split_on CHR ''/'' base;
                origin = join_with ''/'' (take 3 parts);
                bparts = [] # drop 3 parts;
                base_parts = (if last bparts \<noteq> [] then butlast bparts else bparts);
                segments =
                  (if take 1 url = ''/'' then split_on CHR ''/'' url
                   else
                     let s = base_parts @ split_on CHR ''/'' url
                     in take 1 s @ filter (\<lambda>w. w \<noteq> []) (butlast (drop 1 s)) @
                        (if 1 < length s then [last s] else []));
                resolved = resolve_dots segments [];
                resolved_path =
                  (if last segments = ''.'' \<or> last segments = ''..'' then resolved @ [[]]
                   else resolved);
                joined = join_with ''/'' resolved_path;
                p = (if joined = [] then ''/'' else joined)
            in origin @ (if take 1 p = ''/'' then p else ''/'' @ p))"

definition DRAFT_API_URL :: string where
  "DRAFT_API_URL = ''https://draftin.com/api/v1/''"

subsection \<open>Requests, responses and the remote service\<close>

text \<open>
  \<^verbatim>\<open>json.dumps(v)\<close>: the text that encodes \<open>v\<close>, kept as the value it encodes.
\<close>

datatype json_text = JsonText json

definition json_dumps :: "json \<Rightarrow> json_text" where
  "json_dumps v = JsonText v"

text \<open>
  One call of a function of \<^verbatim>\<open>requests\<close>: the name of the function, the URL, the
  \<^verbatim>\<open>auth\<close> pair, the \<^verbatim>\<open>headers\<close> argument (empty when it is not passed) and the \<^verbatim>\<open>data\<close>
  keyword (the only keyword the module passes on through \<^verbatim>\<open>**kw\<close>).
\<close>

record http_request =
  meth :: string
  url :: string
  auth :: "string \<times> string"
  req_headers :: "(string \<times> string) list"
  data :: "json_text option"

text \<open>
  What the module reads of a response: \<^verbatim>\<open>status_code\<close>, \<^verbatim>\<open>headers\<close>, \<^verbatim>\<open>text\<close>, and the
  outcome of \<^verbatim>\<open>resp.json()\<close>, which is \<open>None\<close> when the call raises.
\<close>

record response =
  status_code :: int
  headers :: "(string \<times> string) list"
  resp_text :: string
  resp_json :: "json option"

text \<open>
  \<^verbatim>\<open>headers.get(key, default)\<close>. The headers of a response are a dictionary that
  \<^verbatim>\<open>requests\<close> reads without regard to the case of the key.
\<close>

definition headers_get :: "(string \<times> string) list \<Rightarrow> string \<Rightarrow> string \<Rightarrow> string" where
  "headers_get hs key dflt =
     (case map_of (map (\<lambda>kv. (lower (fst kv), snd kv)) hs) (lower key) of
        None \<Rightarrow> dflt
      | Some v \<Rightarrow> v)"

text \<open>
  The exception of the module, with the two attributes its constructor sets and the
  message it hands to \<^verbatim>\<open>Exception.__init__\<close>.
\<close>

record DraftApiException =
  response :: response
  code :: int
  message :: json

text \<open>
  Everything a call can raise: the exception of the module, the errors of the Python
  runtime on a value of the wrong shape, the error of \<^verbatim>\<open>resp.json()\<close> on a body that
  does not parse, a method name that is not a request function of \<^verbatim>\<open>requests\<close>, and
  an exception of \<^verbatim>\<open>requests\<close> itself (no response was received).
\<close>

datatype error =
    ApiError DraftApiException
  | AttributeError
  | TypeError
  | KeyError
  | ValueError
  | NoRequestFunction
  | RequestsException

text \<open>
  The surroundings of a run. \<open>send\<close> is the remote service as the client sees it:
  the answer to a call, given the calls made before it (\<open>None\<close> when \<^verbatim>\<open>requests\<close>
  raises instead of returning a response). \<open>repr\<close> prints a list or a dictionary.
\<close>

record env =
  send :: "http_request list \<Rightarrow> http_request \<Rightarrow> response option"
  repr :: "json \<Rightarrow> string"

text \<open>\<^verbatim>\<open>'%s' % v\<close>\<close>

definition percent_s :: "env \<Rightarrow> json \<Rightarrow> string" where
  "percent_s E v =
     (case v of
        JStr s \<Rightarrow> s
      | JInt n \<Rightarrow> str_int n
      | JBool b \<Rightarrow> (if b then ''True'' else ''False'')
      | JNull \<Rightarrow> ''None''
      | _ \<Rightarrow> repr E v)"

subsection \<open>DraftApiException\<close>

definition is_json_content :: "response \<Rightarrow> bool" where
  "is_json_content resp =
     startswith (headers_get (headers resp) ''Content-Type'' []) ''application/json''"

definition DraftApiException_init :: "response \<Rightarrow> DraftApiException" where
  "DraftApiException_init resp =
     \<lparr> response = resp,
       code = status_code resp,
       message =
         (if is_json_content resp then
            (case resp_json resp of
               None \<Rightarrow> JStr (resp_text resp)
             | Some (JObj kvs) \<Rightarrow>
                 (case map_of kvs ''error'' of
                    Some e \<Rightarrow> e
                  | None \<Rightarrow> JStr ''Unknown error invoking the Draft API'')
             | Some _ \<Rightarrow> JStr (resp_text resp))
          else JStr (''Unknown error invoking the Draft API ('' @
                     str_int (status_code resp) @ '')'')) \<rparr>"

subsection \<open>DraftApi\<close>

record DraftApi =
  api_url :: string
  api_user :: string
  api_password :: string

definition DraftApi_init :: "string \<Rightarrow> string \<Rightarrow> DraftApi" where
  "DraftApi_init user password =
     \<lparr> api_url = DRAFT_API_URL, api_user = user, api_password = password \<rparr>"

definition check_response :: "response \<Rightarrow> error + unit" where
  "check_response resp =
     (if status_code resp < 200 \<or> status_code resp > 299
      then Inl (ApiError (DraftApiException_init resp))
      else Inr ())"

text \<open>
  The functions of \<^verbatim>\<open>requests\<close> that take a URL and issue a request; for any other
  name \<^verbatim>\<open>getattr(requests, typ)\<close> or the call of what it returns raises.
\<close>

definition request_functions :: "string list" where
  "request_functions =
     [''get'', ''options'', ''head'', ''post'', ''put'', ''patch'', ''delete'']"

text \<open>
  \<^verbatim>\<open>request(typ, path, **kw)\<close>. The calls made so far are passed in and returned
  with the new call appended.
\<close>

definition request ::
  "env \<Rightarrow> DraftApi \<Rightarrow> string \<Rightarrow> string \<Rightarrow> json_text option \<Rightarrow> http_request list
     \<Rightarrow> (error + json) \<times> http_request list" where
  "request E self typ0 path kw tr =
     (let typ = lower typ0;
          u = urljoin (api_url self) path
      in
        if typ \<notin> set request_functions then (Inl NoRequestFunction, tr)
        else
          let rq =
                (if typ = ''post'' \<or> typ = ''put'' then
                   \<lparr> meth = typ, url = u, auth = (api_user self, api_password self),
                     req_headers = [(''Content-Type'', ''application/json'')], data = kw \<rparr>
                 else
                   \<lparr> meth = typ, url = u, auth = (api_user self, api_password self),
                     req_headers = [], data = kw \<rparr>)
          in
            (case send E tr rq of
               None \<Rightarrow> (Inl RequestsException, tr @ [rq])
             | Some resp \<Rightarrow>
                 (case check_response resp of
                    Inl e \<Rightarrow> (Inl e, tr @ [rq])
                  | Inr _ \<Rightarrow>
                      if status_code resp = 204 \<or> \<not> is_json_content resp
                      then (Inr JNull, tr @ [rq])
                      else if resp_text resp = '' '' then (Inr JNull, tr @ [rq])
                      else (case resp_json resp of
                              None \<Rightarrow> (Inl ValueError, tr @ [rq])
                            | Some v \<Rightarrow> (Inr v, tr @ [rq])))))"

subsection \<open>BaseDraftObj\<close>

text \<open>
  An entity holds the client and its backing data, \<^verbatim>\<open>_data\<close>, which is \<^verbatim>\<open>None\<close>
  (\<open>JNull\<close>) until a response sets it.
\<close>

record BaseDraftObj =
  api :: DraftApi
  obj_data :: json

definition BaseDraftObj_init :: "DraftApi \<Rightarrow> json \<Rightarrow> BaseDraftObj" where
  "BaseDraftObj_init a d = \<lparr> api = a, obj_data = d \<rparr>"

text \<open>\<^verbatim>\<open>name in d\<close> and \<^verbatim>\<open>d[name]\<close> for a string \<open>name\<close>.\<close>

fun py_in :: "string \<Rightarrow> json \<Rightarrow> error + bool" where
  "py_in name (JObj kvs) = Inr (map_of kvs name \<noteq> None)"
| "py_in name (JArr xs) = Inr (JStr name \<in> set xs)"
| "py_in name (JStr s) = Inr (occurs_in name s)"
| "py_in name (JInt n) = Inl TypeError"
| "py_in name (JBool b) = Inl TypeError"
| "py_in name JNull = Inl TypeError"

fun py_getitem :: "json \<Rightarrow> string \<Rightarrow> error + json" where
  "py_getitem (JObj kvs) name =
     (case map_of kvs name of None \<Rightarrow> Inl KeyError | Some v \<Rightarrow> Inr v)"
| "py_getitem (JArr xs) name = Inl TypeError"
| "py_getitem (JStr s) name = Inl TypeError"
| "py_getitem (JInt n) name = Inl TypeError"
| "py_getitem (JBool b) name = Inl TypeError"
| "py_getitem JNull name = Inl TypeError"

text \<open>\<^verbatim>\<open>__getattr__(name)\<close>, for a name that is not an attribute of the instance or its class.\<close>

definition getattr_data :: "BaseDraftObj \<Rightarrow> string \<Rightarrow> error + json" where
  "getattr_data self name =
     (if truthy (obj_data self) then
        (case py_in name (obj_data self) of
           Inl e \<Rightarrow> Inl e
         | Inr found \<Rightarrow>
             if found then py_getitem (obj_data self) name else Inl AttributeError)
      else Inl AttributeError)"

text \<open>\<^verbatim>\<open>getattr(self, name, None)\<close>: only an \<^verbatim>\<open>AttributeError\<close> is turned into the default.\<close>

definition getattr_or_None :: "BaseDraftObj \<Rightarrow> string \<Rightarrow> error + json" where
  "getattr_or_None self name =
     (case getattr_data self name of
        Inl e \<Rightarrow> (if e = AttributeError then Inr JNull else Inl e)
      | Inr v \<Rightarrow> Inr v)"

definition objid :: "BaseDraftObj \<Rightarrow> error + json" where
  "objid self = getattr_or_None self ''id''"

definition set_data :: "BaseDraftObj \<Rightarrow> json \<Rightarrow> BaseDraftObj" where
  "set_data self d = self\<lparr> obj_data := d \<rparr>"

text \<open>
  \<^verbatim>\<open>updated()\<close> and \<^verbatim>\<open>created()\<close>. \<open>dateparse\<close> is the date parser of \<^verbatim>\<open>dateutil\<close>, a
  parameter; the result is \<open>None\<close> where the method returns \<^verbatim>\<open>None\<close>.
\<close>

definition updated ::
  "(json \<Rightarrow> error + 'dt) \<Rightarrow> BaseDraftObj \<Rightarrow> error + 'dt option" where
  "updated dateparse self =
     (case getattr_or_None self ''created_at'' of
        Inl e \<Rightarrow> Inl e
      | Inr date \<Rightarrow>
          if truthy date then
            (case dateparse date of Inl e \<Rightarrow> Inl e | Inr t \<Rightarrow> Inr (Some t))
          else Inr None)"

definition created ::
  "(json \<Rightarrow> error + 'dt) \<Rightarrow> BaseDraftObj \<Rightarrow> error + 'dt option" where
  "created dateparse self =
     (case getattr_or_None self ''updated_at'' of
        Inl e \<Rightarrow> Inl e
      | Inr date \<Rightarrow>
          if truthy date then
            (case dateparse date of Inl e \<Rightarrow> Inl e | Inr t \<Rightarrow> Inr (Some t))
          else Inr None)"

text \<open>
  \<^verbatim>\<open>for data in v\<close>: the elements of a list, the keys of a dictionary, the characters
  of a string; any other value is not iterable.
\<close>

fun py_iter :: "json \<Rightarrow> error + json list" where
  "py_iter (JArr xs) = Inr xs"
| "py_iter (JObj kvs) = Inr (map (\<lambda>kv. JStr (fst kv)) kvs)"
| "py_iter (JStr s) = Inr (map (\<lambda>c. JStr [c]) s)"
| "py_iter (JInt n) = Inl TypeError"
| "py_iter (JBool b) = Inl TypeError"
| "py_iter JNull = Inl TypeError"

subsection \<open>DraftSavePoint\<close>

definition DraftSavePoint_delete ::
  "env \<Rightarrow> BaseDraftObj \<Rightarrow> http_request list \<Rightarrow> (error + json) \<times> http_request list" where
  "DraftSavePoint_delete E self tr =
     (case objid self of
        Inl e \<Rightarrow> (Inl e, tr)
      | Inr i \<Rightarrow>
          request E (api self) ''delete'' (''savepoints/'' @ percent_s E i @ ''.json'') None tr)"

definition DraftSavePoint_from_id ::
  "env \<Rightarrow> DraftApi \<Rightarrow> json \<Rightarrow> http_request list
     \<Rightarrow> (error + BaseDraftObj) \<times> http_request list" where
  "DraftSavePoint_from_id E a saveid tr =
     (case request E a ''get'' (''savepoints/'' @ percent_s E saveid @ ''.json'') None tr of
        (Inl e, tr') \<Rightarrow> (Inl e, tr')
      | (Inr d, tr') \<Rightarrow> (Inr (BaseDraftObj_init a d), tr'))"

subsection \<open>DraftDocument\<close>

definition get_document ::
  "env \<Rightarrow> DraftApi \<Rightarrow> json \<Rightarrow> http_request list \<Rightarrow> (error + json) \<times> http_request list" where
  "get_document E a docid tr =
     request E a ''get'' (''/documents/'' @ percent_s E docid @ ''.json'') None tr"

definition from_id ::
  "env \<Rightarrow> DraftApi \<Rightarrow> json \<Rightarrow> http_request list
     \<Rightarrow> (error + BaseDraftObj) \<times> http_request list" where
  "from_id E a docid tr =
     (case get_document E a docid tr of
        (Inl e, tr') \<Rightarrow> (Inl e, tr')
      | (Inr d, tr') \<Rightarrow> (Inr (BaseDraftObj_init a d), tr'))"

text \<open>
  The methods that change the entity return it with the calls made: the result, the
  entity after the call and the calls so far.
\<close>

definition refresh ::
  "env \<Rightarrow> BaseDraftObj \<Rightarrow> http_request list
     \<Rightarrow> (error + unit) \<times> BaseDraftObj \<times> http_request list" where
  "refresh E self tr =
     (case objid self of
        Inl e \<Rightarrow> (Inl e, self, tr)
      | Inr i \<Rightarrow>
          if \<not> truthy i then (Inr (), self, tr)
          else
            (case getattr_data self ''id'' of
               Inl e \<Rightarrow> (Inl e, self, tr)
             | Inr docid \<Rightarrow>
                 (case get_document E (api self) docid tr of
                    (Inl e, tr') \<Rightarrow> (Inl e, self, tr')
                  | (Inr d, tr') \<Rightarrow> (Inr (), set_data self d, tr'))))"

definition createdoc ::
  "env \<Rightarrow> BaseDraftObj \<Rightarrow> json \<Rightarrow> json \<Rightarrow> http_request list
     \<Rightarrow> (error + unit) \<times> BaseDraftObj \<times> http_request list" where
  "createdoc E self content name tr =
     (let args0 = [(''content'', content)];
          args = (if truthy name then args0 @ [(''name'', name)] else args0)
      in
        case request E (api self) ''post'' ''documents.json''
               (Some (json_dumps (JObj args))) tr of
          (Inl e, tr') \<Rightarrow> (Inl e, self, tr')
        | (Inr d, tr') \<Rightarrow> (Inr (), set_data self d, tr'))"

definition update ::
  "env \<Rightarrow> BaseDraftObj \<Rightarrow> json \<Rightarrow> json \<Rightarrow> http_request list
     \<Rightarrow> (error + unit) \<times> BaseDraftObj \<times> http_request list" where
  "update E self content name tr =
     (case objid self of
        Inl e \<Rightarrow> (Inl e, self, tr)
      | Inr i \<Rightarrow>
          if \<not> truthy i then createdoc E self content name tr
          else
            let args0 = [(''content'', content)];
                args = (if truthy name then args0 @ [(''name'', name)] else args0)
            in
              (case getattr_data self ''id'' of
                 Inl e \<Rightarrow> (Inl e, self, tr)
               | Inr docid \<Rightarrow>
                   (case request E (api self) ''put''
                           (''documents/'' @ percent_s E docid @ ''.json'')
                           (Some (json_dumps (JObj args))) tr of
                      (Inl e, tr') \<Rightarrow> (Inl e, self, tr')
                    | (Inr _, tr') \<Rightarrow> refresh E self tr')))"

definition delete ::
  "env \<Rightarrow> BaseDraftObj \<Rightarrow> http_request list
     \<Rightarrow> (error + unit) \<times> BaseDraftObj \<times> http_request list" where
  "delete E self tr =
     (case objid self of
        Inl e \<Rightarrow> (Inl e, self, tr)
      | Inr i \<Rightarrow>
          if \<not> truthy i then (Inr (), self, tr)
          else
            (case getattr_data self ''id'' of
               Inl e \<Rightarrow> (Inl e, self, tr)
             | Inr docid \<Rightarrow>
                 (case request E (api self) ''delete''
                         (''documents/'' @ percent_s E docid @ ''.json'') None tr of
                    (Inl e, tr') \<Rightarrow> (Inl e, self, tr')
                  | (Inr _, tr') \<Rightarrow> (Inr (), self, tr'))))"

definition savepoints ::
  "env \<Rightarrow> BaseDraftObj \<Rightarrow> http_request list
     \<Rightarrow> (error + BaseDraftObj list) \<times> http_request list" where
  "savepoints E self tr =
     (case objid self of
        Inl e \<Rightarrow> (Inl e, tr)
      | Inr i \<Rightarrow>
          if \<not> truthy i then (Inr [], tr)
          else
            (case getattr_data self ''id'' of
               Inl e \<Rightarrow> (Inl e, tr)
             | Inr docid \<Rightarrow>
                 (case request E (api self) ''get''
                         (''documents/'' @ percent_s E docid @ ''/savepoints.json'') None tr of
                    (Inl e, tr') \<Rightarrow> (Inl e, tr')
                  | (Inr v, tr') \<Rightarrow>
                      (case py_iter v of
                         Inl e \<Rightarrow> (Inl e, tr')
                       | Inr ds \<Rightarrow> (Inr (map (BaseDraftObj_init (api self)) ds), tr')))))"

definition createsave ::
  "env \<Rightarrow> BaseDraftObj \<Rightarrow> http_request list \<Rightarrow> (error + json) \<times> http_request list" where
  "createsave E self tr =
     (case objid self of
        Inl e \<Rightarrow> (Inl e, tr)
      | Inr i \<Rightarrow>
          if \<not> truthy i then (Inr JNull, tr)
          else
            (case getattr_data self ''id'' of
               Inl e \<Rightarrow> (Inl e, tr)
             | Inr docid \<Rightarrow>
                 request E (api self) ''POST''
                   (''documents/'' @ percent_s E docid @ ''/savepoints.json'') None tr))"

subsection \<open>The client's entry points\<close>

definition documents ::
  "env \<Rightarrow> DraftApi \<Rightarrow> http_request list
     \<Rightarrow> (error + BaseDraftObj list) \<times> http_request list" where
  "documents E self tr =
     (case request E self ''get'' ''documents.json'' None tr of
        (Inl e, tr') \<Rightarrow> (Inl e, tr')
      | (Inr v, tr') \<Rightarrow>
          (case py_iter v of
             Inl e \<Rightarrow> (Inl e, tr')
           | Inr ds \<Rightarrow> (Inr (map (BaseDraftObj_init self) ds), tr')))"

definition document ::
  "env \<Rightarrow> DraftApi \<Rightarrow> json \<Rightarrow> http_request list
     \<Rightarrow> (error + BaseDraftObj) \<times> http_request list" where
  "document E self docid tr = from_id E self docid tr"

definition create ::
  "env \<Rightarrow> DraftApi \<Rightarrow> json \<Rightarrow> json \<Rightarrow> http_request list
     \<Rightarrow> (error + BaseDraftObj) \<times> http_request list" where
  "create E self content name tr =
     (case update E (BaseDraftObj_init self JNull) content name tr of
        (Inl e, doc, tr') \<Rightarrow> (Inl e, tr')
      | (Inr _, doc, tr') \<Rightarrow> (Inr doc, tr'))"

subsection \<open>The call a request makes and the value it returns\<close>

text \<open>
  Two readings of \<open>request\<close> used to state results: the call it hands to
  \<^verbatim>\<open>requests\<close>, and what it returns or raises for the answer to that call.
\<close>

definition call_of ::
  "DraftApi \<Rightarrow> string \<Rightarrow> string \<Rightarrow> json_text option \<Rightarrow> http_request" where
  "call_of self typ path kw =
     \<lparr> meth = lower typ, url = urljoin (api_url self) path,
       auth = (api_user self, api_password self),
       req_headers =
         (if lower typ = ''post'' \<or> lower typ = ''put''
          then [(''Content-Type'', ''application/json'')] else []),
       data = kw \<rparr>"

definition outcome :: "response option \<Rightarrow> error + json" where
  "outcome r =
     (case r of
        None \<Rightarrow> Inl RequestsException
      | Some resp \<Rightarrow>
          if status_code resp < 200 \<or> status_code resp > 299
          then Inl (ApiError (DraftApiException_init resp))
          else if status_code resp = 204 \<or> \<not> is_json_content resp \<or> resp_text resp = '' ''
          then Inr JNull
          else (case resp_json resp of None \<Rightarrow> Inl ValueError | Some v \<Rightarrow> Inr v))"

text \<open>
  The dictionary that both \<^verbatim>\<open>_createdoc\<close> and \<^verbatim>\<open>update\<close> build and serialise: the
  content, and the name when it is true.
\<close>

definition doc_args :: "json \<Rightarrow> json \<Rightarrow> (string \<times> json) list" where
  "doc_args content name =
     (if truthy name then [(''content'', content), (''name'', name)]
      else [(''content'', content)])"

subsection \<open>Sample services, responses and entities\<close>

text \<open>
  A service that answers the calls of a run in turn with the given answers, and
  raises once they are used up.
\<close>

definition answering :: "response option list \<Rightarrow> env" where
  "answering rs =
     \<lparr> send = (\<lambda>tr rq. if length tr < length rs then rs ! length tr else None),
       repr = (\<lambda>v. ''?'') \<rparr>"

definition json_response :: "int \<Rightarrow> string \<Rightarrow> json option \<Rightarrow> response" where
  "json_response st body parsed =
     \<lparr> status_code = st,
       headers = [(''Content-Type'', ''application/json; charset=utf-8'')],
       resp_text = body, resp_json = parsed \<rparr>"

definition html_response :: "int \<Rightarrow> string \<Rightarrow> response" where
  "html_response st body =
     \<lparr> status_code = st, headers = [(''Content-Type'', ''text/html'')],
       resp_text = body, resp_json = None \<rparr>"

definition no_content :: response where
  "no_content = \<lparr> status_code = 204, headers = [], resp_text = [], resp_json = None \<rparr>"

definition sample_api :: DraftApi where
  "sample_api = DraftApi_init ''user'' ''secret''"

definition unsaved_doc :: BaseDraftObj where
  "unsaved_doc = BaseDraftObj_init sample_api JNull"

definition saved_doc :: BaseDraftObj where
  "saved_doc =
     BaseDraftObj_init sample_api
       (JObj [(''id'', JInt 7), (''content'', JStr ''old''), (''name'', JStr ''notes'')])"

definition zero_id_doc :: BaseDraftObj where
  "zero_id_doc = BaseDraftObj_init sample_api (JObj [(''id'', JInt 0), (''content'', JStr ''old'')])"

definition fetched_data :: json where
  "fetched_data = JObj [(''id'', JInt 7), (''content'', JStr ''new''), (''name'', JStr ''notes'')]"

section \<open>Properties\<close>

subsection \<open>Method names and the call of a request\<close>

lemma lower_char_idem: "lower_char (lower_char c) = lower_char c"
  by (auto simp: lower_char_def Let_def)

lemma lower_idem: "lower (lower s) = lower s"
  by (simp add: lower_def lower_char_idem)

lemma lower_literals:
  "lower ''get'' = ''get''" "lower ''post'' = ''post''" "lower ''put'' = ''put''"
  "lower ''delete'' = ''delete''" "lower ''POST'' = ''post''"
  by code_simp+

text \<open>
  A request with a method name that \<^verbatim>\<open>requests\<close> knows makes exactly one call and
  returns by the answer to it; with any other name it makes none.
\<close>

lemma request_unfold:
  "request E self typ path kw tr =
     (if lower typ \<in> set request_functions
      then (outcome (send E tr (call_of self typ path kw)), tr @ [call_of self typ path kw])
      else (Inl NoRequestFunction, tr))"
proof -
  have rq:
    "(if lower typ = ''post'' \<or> lower typ = ''put'' then
        \<lparr> meth = lower typ, url = urljoin (api_url self) path,
          auth = (api_user self, api_password self),
          req_headers = [(''Content-Type'', ''application/json'')], data = kw \<rparr>
      else
        \<lparr> meth = lower typ, url = urljoin (api_url self) path,
          auth = (api_user self, api_password self),
          req_headers = [], data = kw \<rparr>) = call_of self typ path kw"
    by (cases "lower typ = ''post'' \<or> lower typ = ''put''")
       (simp_all only: call_of_def if_True if_False)
  show ?thesis
    unfolding request_def Let_def rq
    by (cases "send E tr (call_of self typ path kw)")
       (simp_all add: outcome_def check_response_def split: option.split)
qed

lemma request_known:
  assumes "typ = ''get'' \<or> typ = ''post'' \<or> typ = ''put'' \<or> typ = ''delete'' \<or> typ = ''POST''"
  shows "request E self typ path kw tr =
           (outcome (send E tr (call_of self typ path kw)), tr @ [call_of self typ path kw])"
  using assms by (auto simp: request_unfold lower_literals request_functions_def)

lemma objid_truthy_getattr:
  assumes "objid self = Inr i" and "truthy i"
  shows "getattr_data self ''id'' = Inr i"
  using assms
  by (cases "getattr_data self ''id''")
     (auto simp: objid_def getattr_or_None_def split: if_splits)

subsection \<open>The sample services and responses\<close>

lemma lower_content_type: "lower ''Content-Type'' = ''content-type''"
  by code_simp

lemma is_json_samples:
  "is_json_content (json_response st b p)" "\<not> is_json_content (html_response st b)"
  "\<not> is_json_content no_content"
  by (simp_all add: json_response_def html_response_def no_content_def is_json_content_def
      headers_get_def startswith_def lower_content_type)

lemma response_fields:
  "status_code (json_response st b p) = st" "resp_text (json_response st b p) = b"
  "resp_json (json_response st b p) = p"
  "status_code (html_response st b) = st" "resp_text (html_response st b) = b"
  "resp_json (html_response st b) = None"
  "status_code no_content = 204" "resp_text no_content = []" "resp_json no_content = None"
  by (simp_all add: json_response_def html_response_def no_content_def)

lemma answering_nth:
  "send (answering rs) tr rq = (if length tr < length rs then rs ! length tr else None)"
  by (simp add: answering_def)

lemma outcome_samples:
  "outcome (Some (json_response 200 ''{}'' (Some v))) = Inr v"
  "outcome (Some no_content) = Inr JNull"
  "outcome (Some (html_response 404 b)) =
     Inl (ApiError (DraftApiException_init (html_response 404 b)))"
  by (simp_all add: outcome_def is_json_samples response_fields)

subsection \<open>The transport\<close>

text \<open>
  C4. For a method name that \<^verbatim>\<open>requests\<close> knows, \<open>request\<close> makes one call; when
  the service answers that call with the response \<open>resp\<close>, \<open>request\<close> raises the
  exception of the module if and only if the status code is below 200 or above 299;
  it then raises the exception built from \<open>resp\<close> and returns no value. With a
  status code from 200 to 299 it does not raise that exception.
\<close>

theorem C4_request_raises_iff_status_outside_2xx:
  assumes "lower typ \<in> set request_functions"
    and "send E tr (call_of self typ path kw) = Some resp"
  shows "((\<exists>x. fst (request E self typ path kw tr) = Inl (ApiError x)) \<longleftrightarrow>
            (status_code resp < 200 \<or> status_code resp > 299)) \<and>
         (status_code resp < 200 \<or> status_code resp > 299 \<longrightarrow>
            request E self typ path kw tr =
              (Inl (ApiError (DraftApiException_init resp)), tr @ [call_of self typ path kw]) \<and>
            (\<forall>v. fst (request E self typ path kw tr) \<noteq> Inr v)) \<and>
         snd (request E self typ path kw tr) = tr @ [call_of self typ path kw]"
proof -
  have r: "request E self typ path kw tr = (outcome (Some resp), tr @ [call_of self typ path kw])"
    using assms by (simp add: request_unfold)
  show ?thesis
    unfolding r by (simp add: outcome_def split: option.split)
qed

text \<open>
  A listing answered with 404 raises the exception and returns nothing; one answered
  with 204 does not raise it.
\<close>

theorem C4_witness:
  "(\<exists>x. fst (request (answering [Some (html_response 404 ''Not Found'')]) sample_api
              ''get'' ''documents.json'' None []) = Inl (ApiError x)) \<and>
   (\<forall>v. fst (request (answering [Some (html_response 404 ''Not Found'')]) sample_api
              ''get'' ''documents.json'' None []) \<noteq> Inr v) \<and>
   request (answering [Some (html_response 404 ''Not Found'')]) sample_api
              ''get'' ''documents.json'' None []
     = (Inl (ApiError (DraftApiException_init (html_response 404 ''Not Found''))),
        [call_of sample_api ''get'' ''documents.json'' None]) \<and>
   (\<forall>x. fst (request (answering [Some no_content]) sample_api
              ''get'' ''documents.json'' None []) \<noteq> Inl (ApiError x))"
proof -
  let ?rq = "call_of sample_api ''get'' ''documents.json'' None"
  have m: "lower ''get'' \<in> set request_functions"
    by (simp add: lower_literals request_functions_def)
  have b: "send (answering [Some (html_response 404 ''Not Found'')]) [] ?rq
             = Some (html_response 404 ''Not Found'')"
    by (simp add: answering_def)
  have d: "send (answering [Some no_content]) [] ?rq = Some no_content"
    by (simp add: answering_def)
  show ?thesis
    using C4_request_raises_iff_status_outside_2xx [OF m b] C4_request_raises_iff_status_outside_2xx [OF m d]
    by (simp add: response_fields)
qed

text \<open>
  C5, as the code has it. For a method name that \<^verbatim>\<open>requests\<close> knows, when the service
  answers the call of \<open>request\<close> with a response whose status code is from 200 to 299,
  \<open>request\<close> returns \<^verbatim>\<open>None\<close> when the status is 204, when the content type is not JSON,
  or when the body is one space; in every other case it returns what \<^verbatim>\<open>resp.json()\<close>
  returns, and raises the parser's error when the body does not parse. It has made
  the one call.
\<close>

theorem C5_request_value_on_success:
  assumes "lower typ \<in> set request_functions"
    and "send E tr (call_of self typ path kw) = Some resp"
    and "200 \<le> status_code resp" and "status_code resp \<le> 299"
  shows "request E self typ path kw tr =
           (if status_code resp = 204 \<or> \<not> is_json_content resp \<or> resp_text resp = '' ''
            then Inr JNull
            else (case resp_json resp of
                    Some v \<Rightarrow> Inr v
                  | None \<Rightarrow> Inl ValueError),
            tr @ [call_of self typ path kw])"
proof -
  have r: "request E self typ path kw tr = (outcome (Some resp), tr @ [call_of self typ path kw])"
    using assms(1,2) by (simp add: request_unfold)
  show ?thesis
    unfolding r using assms(3,4) by (simp add: outcome_def split: option.split)
qed

text \<open>
  A response with status 200, a JSON content type and a body that is neither one
  space nor JSON: \<open>request\<close> returns no value, it raises the parser's error.
\<close>

theorem C5_counterexample:
  "status_code (json_response 200 ''<html>'' None) = 200 \<and>
   is_json_content (json_response 200 ''<html>'' None) \<and>
   resp_text (json_response 200 ''<html>'' None) \<noteq> '' '' \<and>
   resp_json (json_response 200 ''<html>'' None) = None \<and>
   request (answering [Some (json_response 200 ''<html>'' None)]) sample_api
     ''get'' ''documents.json'' None []
     = (Inl ValueError, [call_of sample_api ''get'' ''documents.json'' None])"
  by (simp add: request_known answering_nth outcome_def is_json_samples response_fields)

text \<open>
  Five successful answers: a JSON list, a body of one space, a page of HTML, 204, and
  a body that is declared JSON and does not parse.
\<close>

theorem C5_witness:
  "request (answering [Some (json_response 200 ''[1, 2]'' (Some (JArr [JInt 1, JInt 2])))])
          sample_api ''get'' ''documents.json'' None []
     = (Inr (JArr [JInt 1, JInt 2]), [call_of sample_api ''get'' ''documents.json'' None]) \<and>
   request (answering [Some (json_response 200 '' '' None)])
          sample_api ''get'' ''documents.json'' None []
     = (Inr JNull, [call_of sample_api ''get'' ''documents.json'' None]) \<and>
   request (answering [Some (html_response 200 ''<html>'')])
          sample_api ''get'' ''documents.json'' None []
     = (Inr JNull, [call_of sample_api ''get'' ''documents.json'' None]) \<and>
   request (answering [Some no_content])
          sample_api ''get'' ''documents.json'' None []
     = (Inr JNull, [call_of sample_api ''get'' ''documents.json'' None]) \<and>
   request (answering [Some (json_response 200 ''<html>'' None)])
          sample_api ''get'' ''documents.json'' None []
     = (Inl ValueError, [call_of sample_api ''get'' ''documents.json'' None])"
proof -
  let ?rq = "call_of sample_api ''get'' ''documents.json'' None"
  have m: "lower ''get'' \<in> set request_functions"
    by (simp add: lower_literals request_functions_def)
  have ans: "send (answering [Some r]) [] ?rq = Some r" for r
    by (simp add: answering_def)
  show ?thesis
    using C5_request_value_on_success [OF m ans, of "json_response 200 ''[1, 2]'' (Some (JArr [JInt 1, JInt 2]))"]
      C5_request_value_on_success [OF m ans, of "json_response 200 '' '' None"]
      C5_request_value_on_success [OF m ans, of "html_response 200 ''<html>''"]
      C5_request_value_on_success [OF m ans, of "no_content"]
      C5_request_value_on_success [OF m ans, of "json_response 200 ''<html>'' None"]
    by (simp add: is_json_samples response_fields)
qed

text \<open>
  C10. \<open>request\<close> reads the method name through \<^verbatim>\<open>lower()\<close> only: a method name and
  its lower-case form give the same call, result and calls made, whatever the path
  and the keyword. So \<open>createsave\<close>, which passes \<^verbatim>\<open>'POST'\<close>, behaves as if it passed
  \<^verbatim>\<open>'post'\<close>.
\<close>

theorem C10_request_ignores_case_of_method:
  "request E self typ path kw tr = request E self (lower typ) path kw tr \<and>
   request E self ''POST'' path kw tr = request E self ''post'' path kw tr \<and>
   createsave E doc tr =
     (case objid doc of
        Inl e \<Rightarrow> (Inl e, tr)
      | Inr i \<Rightarrow>
          if \<not> truthy i then (Inr JNull, tr)
          else request E (api doc) ''post''
                 (''documents/'' @ percent_s E i @ ''/savepoints.json'') None tr)"
proof -
  have a: "request E self t path kw tr = request E self (lower t) path kw tr"
    for t path kw tr and self :: DraftApi
    by (simp add: request_unfold call_of_def lower_idem)
  have b: "request E self ''POST'' path kw tr = request E self ''post'' path kw tr"
    for path kw tr and self :: DraftApi
    using a [of self "''POST''"] by (simp add: lower_literals)
  have c: "createsave E doc tr =
     (case objid doc of
        Inl e \<Rightarrow> (Inl e, tr)
      | Inr i \<Rightarrow>
          if \<not> truthy i then (Inr JNull, tr)
          else request E (api doc) ''post''
                 (''documents/'' @ percent_s E i @ ''/savepoints.json'') None tr)"
  proof (cases "objid doc")
    case (Inl e)
    then show ?thesis by (simp add: createsave_def)
  next
    case (Inr i)
    then show ?thesis
      by (cases "truthy i") (simp_all add: createsave_def objid_truthy_getattr b)
  qed
  show ?thesis using a b c by blast
qed

text \<open>
  A DELETE asked for as \<^verbatim>\<open>'Delete'\<close>.
\<close>

theorem C10_witness:
  "request (answering [Some no_content]) sample_api ''Delete'' ''documents/7.json'' None []
     = request (answering [Some no_content]) sample_api ''delete'' ''documents/7.json'' None [] \<and>
   lower ''Delete'' = ''delete''"
proof -
  have l: "lower ''Delete'' = ''delete''" by code_simp
  show ?thesis
    using C10_request_ignores_case_of_method
      [of "answering [Some no_content]" sample_api "''Delete''" "''documents/7.json''" None "[]"]
    by (simp add: l)
qed

subsection \<open>The exception\<close>

lemma str_int_404: "str_int 404 = ''404''"
  by code_simp

text \<open>
  C7. The exception built from a response has the status code as \<open>code\<close> and the
  response itself as \<open>response\<close>. Its message is the \<^verbatim>\<open>error\<close> field when the content
  type is JSON and the body parses to a dictionary with that field; the text of the
  body when the content type is JSON and the body does not parse; and
  \<^verbatim>\<open>Unknown error invoking the Draft API (status)\<close> when the content type is not
  JSON. It is the exception \<open>check_response\<close> raises on a status code outside 200
  to 299.
\<close>

theorem C7_exception_fields:
  "code (DraftApiException_init resp) = status_code resp \<and>
   response (DraftApiException_init resp) = resp \<and>
   (is_json_content resp \<and> resp_json resp = Some (JObj kvs) \<and> map_of kvs ''error'' = Some e
      \<longrightarrow> message (DraftApiException_init resp) = e) \<and>
   (is_json_content resp \<and> resp_json resp = None
      \<longrightarrow> message (DraftApiException_init resp) = JStr (resp_text resp)) \<and>
   (\<not> is_json_content resp
      \<longrightarrow> message (DraftApiException_init resp) =
            JStr (''Unknown error invoking the Draft API ('' @ str_int (status_code resp) @ '')'')) \<and>
   (status_code resp < 200 \<or> status_code resp > 299
      \<longrightarrow> check_response resp = Inl (ApiError (DraftApiException_init resp)))"
  by (simp add: DraftApiException_init_def check_response_def)

text \<open>
  The exceptions built from a page answered with 404, from a JSON body with an
  \<^verbatim>\<open>error\<close> field and from a body that is declared JSON and does not parse.
\<close>

theorem C7_witness:
  "code (DraftApiException_init (html_response 404 ''Not Found'')) = 404 \<and>
   message (DraftApiException_init
      (json_response 401 ''{}'' (Some (JObj [(''error'', JStr ''Bad credentials'')]))))
     = JStr ''Bad credentials'' \<and>
   message (DraftApiException_init (json_response 500 ''oops'' None)) = JStr ''oops'' \<and>
   message (DraftApiException_init (html_response 404 ''Not Found''))
     = JStr ''Unknown error invoking the Draft API (404)'' \<and>
   check_response (html_response 404 ''Not Found'')
     = Inl (ApiError (DraftApiException_init (html_response 404 ''Not Found'')))"
proof -
  show ?thesis
    using C7_exception_fields [of "html_response 404 ''Not Found''" "[]" JNull]
      C7_exception_fields
        [of "json_response 401 ''{}'' (Some (JObj [(''error'', JStr ''Bad credentials'')]))"
          "[(''error'', JStr ''Bad credentials'')]" "JStr ''Bad credentials''"]
      C7_exception_fields [of "json_response 500 ''oops'' None" "[]" JNull]
    by (simp add: is_json_samples response_fields str_int_404)
qed

subsection \<open>Entities\<close>

text \<open>
  C2, on three entities. With only \<^verbatim>\<open>updated_at\<close> in the backing data \<open>updated\<close>
  returns \<^verbatim>\<open>None\<close>, and with only \<^verbatim>\<open>created_at\<close> \<open>created\<close> returns \<^verbatim>\<open>None\<close>; with both
  fields \<open>updated\<close> parses \<^verbatim>\<open>created_at\<close> and \<open>created\<close> parses \<^verbatim>\<open>updated_at\<close>.
\<close>

theorem C2_updated_reads_created_at:
  "updated dateparse (BaseDraftObj_init a (JObj [(''updated_at'', JStr ''2014-05-01T10:00:00Z'')]))
     = Inr None \<and>
   created dateparse (BaseDraftObj_init a (JObj [(''created_at'', JStr ''2014-05-01T10:00:00Z'')]))
     = Inr None \<and>
   updated dateparse
     (BaseDraftObj_init a (JObj [(''created_at'', JStr ''2014-01-01T00:00:00Z''),
                                 (''updated_at'', JStr ''2014-05-01T10:00:00Z'')]))
     = (case dateparse (JStr ''2014-01-01T00:00:00Z'') of
          Inl e \<Rightarrow> Inl e
        | Inr t \<Rightarrow> Inr (Some t)) \<and>
   created dateparse
     (BaseDraftObj_init a (JObj [(''created_at'', JStr ''2014-01-01T00:00:00Z''),
                                 (''updated_at'', JStr ''2014-05-01T10:00:00Z'')]))
     = (case dateparse (JStr ''2014-05-01T10:00:00Z'') of
          Inl e \<Rightarrow> Inl e
        | Inr t \<Rightarrow> Inr (Some t))"
  by (simp add: updated_def created_def getattr_or_None_def getattr_data_def
      BaseDraftObj_init_def)

subsection \<open>Documents\<close>

text \<open>
  \<open>createdoc\<close> and \<open>refresh\<close> by the request they make, and \<open>update\<close> by its two
  routes. For an entity whose \<open>objid\<close> is true, \<^verbatim>\<open>self.id\<close> is that value.
\<close>

lemma createdoc_unfold:
  "createdoc E self content name tr =
     (case request E (api self) ''post'' ''documents.json''
             (Some (json_dumps (JObj (doc_args content name)))) tr of
        (Inl e, tr') \<Rightarrow> (Inl e, self, tr')
      | (Inr d, tr') \<Rightarrow> (Inr (), set_data self d, tr'))"
  by (simp add: createdoc_def doc_args_def Let_def)

lemma refresh_truthy:
  assumes "objid self = Inr i" and "truthy i"
  shows "refresh E self tr =
     (case get_document E (api self) i tr of
        (Inl e, tr') \<Rightarrow> (Inl e, self, tr')
      | (Inr d, tr') \<Rightarrow> (Inr (), set_data self d, tr'))"
  using assms by (simp add: refresh_def objid_truthy_getattr)

lemma update_falsy:
  assumes "objid self = Inr i" and "\<not> truthy i"
  shows "update E self content name tr =
           (case request E (api self) ''post'' ''documents.json''
                   (Some (json_dumps (JObj (doc_args content name)))) tr of
              (Inl e, tr') \<Rightarrow> (Inl e, self, tr')
            | (Inr d, tr') \<Rightarrow> (Inr (), set_data self d, tr'))"
  using assms by (simp add: update_def createdoc_unfold)

lemma update_truthy:
  assumes "objid self = Inr i" and "truthy i"
  shows "update E self content name tr =
           (case request E (api self) ''put'' (''documents/'' @ percent_s E i @ ''.json'')
                   (Some (json_dumps (JObj (doc_args content name)))) tr of
              (Inl e, tr') \<Rightarrow> (Inl e, self, tr')
            | (Inr unused, tr') \<Rightarrow>
                (case get_document E (api self) i tr' of
                   (Inl e, tr'') \<Rightarrow> (Inl e, self, tr'')
                 | (Inr d, tr'') \<Rightarrow> (Inr (), set_data self d, tr'')))"
proof -
  have "update E self content name tr =
          (case request E (api self) ''put'' (''documents/'' @ percent_s E i @ ''.json'')
                  (Some (json_dumps (JObj (doc_args content name)))) tr of
             (Inl e, tr') \<Rightarrow> (Inl e, self, tr')
           | (Inr unused, tr') \<Rightarrow> refresh E self tr')"
    using assms by (simp add: update_def objid_truthy_getattr doc_args_def Let_def)
  then show ?thesis
    by (simp add: refresh_truthy [OF assms] split: prod.split sum.split)
qed

text \<open>
  A fetch that succeeds makes the decoded response the backing data, for a new entity
  (\<open>from_id\<close>) and for an entity with a true id (\<open>refresh\<close>).
\<close>

lemma fetch_sets_backing_data:
  assumes "get_document E a docid tr = (Inr d, tr')"
  shows "document E a docid tr = (Inr (BaseDraftObj_init a d), tr')"
    and "objid self = Inr docid \<Longrightarrow> truthy docid \<Longrightarrow> api self = a \<Longrightarrow>
           refresh E self tr = (Inr (), set_data self d, tr')"
  using assms by (simp_all add: document_def from_id_def refresh_truthy)

text \<open>
  A method that raises returns the entity it was given.
\<close>

lemma createdoc_error:
  assumes "fst (createdoc E self content name tr) = Inl e"
  shows "fst (snd (createdoc E self content name tr)) = self"
  using assms by (auto simp: createdoc_unfold split: prod.splits sum.splits)

lemma refresh_error:
  assumes "fst (refresh E self tr) = Inl e"
  shows "fst (snd (refresh E self tr)) = self"
  using assms by (auto simp: refresh_def split: prod.splits sum.splits if_splits)

lemma delete_error:
  assumes "fst (delete E self tr) = Inl e"
  shows "fst (snd (delete E self tr)) = self"
  using assms by (auto simp: delete_def split: prod.splits sum.splits if_splits)

lemma update_error:
  assumes "fst (update E self content name tr) = Inl e"
  shows "fst (snd (update E self content name tr)) = self"
proof (cases "objid self")
  case (Inl e')
  then show ?thesis by (simp add: update_def)
next
  case (Inr i)
  show ?thesis
  proof (cases "truthy i")
    case False
    then show ?thesis
      using Inr assms createdoc_error [of E self content name tr e]
      by (simp add: update_def)
  next
    case True
    have g: "getattr_data self ''id'' = Inr i"
      by (rule objid_truthy_getattr [OF Inr True])
    show ?thesis
      using assms Inr True g refresh_error [of E self]
      by (auto simp: update_def Let_def split: prod.splits sum.splits)
  qed
qed

text \<open>
  A name that is the empty string or \<^verbatim>\<open>None\<close> is left out of the dictionary.
\<close>

lemma doc_args_empty_name:
  "doc_args content (JStr []) = [(''content'', content)]"
  "doc_args content JNull = [(''content'', content)]"
  by (simp_all add: doc_args_def)

text \<open>
  The sample entities and the calls made for them.
\<close>

lemma objid_samples:
  "objid unsaved_doc = Inr JNull" "objid saved_doc = Inr (JInt 7)"
  "objid zero_id_doc = Inr (JInt 0)"
  by (simp_all add: objid_def getattr_or_None_def getattr_data_def unsaved_doc_def
      saved_doc_def zero_id_doc_def BaseDraftObj_init_def)

lemma api_samples:
  "api unsaved_doc = sample_api" "api saved_doc = sample_api" "api zero_id_doc = sample_api"
  by (simp_all add: unsaved_doc_def saved_doc_def zero_id_doc_def BaseDraftObj_init_def)

lemma urljoin_samples:
  "urljoin DRAFT_API_URL ''documents.json'' = ''https://draftin.com/api/v1/documents.json''"
  "urljoin DRAFT_API_URL ''documents/7.json'' = ''https://draftin.com/api/v1/documents/7.json''"
  "urljoin DRAFT_API_URL ''documents/5.json'' = ''https://draftin.com/api/v1/documents/5.json''"
  "urljoin DRAFT_API_URL ''/documents/5.json'' = ''https://draftin.com/documents/5.json''"
  "urljoin DRAFT_API_URL ''/documents/7.json'' = ''https://draftin.com/documents/7.json''"
  "urljoin DRAFT_API_URL ''documents/7/savepoints.json''
     = ''https://draftin.com/api/v1/documents/7/savepoints.json''"
  by code_simp+

lemma str_int_samples: "str_int 7 = ''7''" "str_int 5 = ''5''" "str_int 0 = ''0''"
  by code_simp+

lemma call_of_sample:
  "call_of sample_api ''post'' path kw =
     \<lparr> meth = ''post'', url = urljoin DRAFT_API_URL path, auth = (''user'', ''secret''),
       req_headers = [(''Content-Type'', ''application/json'')], data = kw \<rparr>"
  "call_of sample_api ''put'' path kw =
     \<lparr> meth = ''put'', url = urljoin DRAFT_API_URL path, auth = (''user'', ''secret''),
       req_headers = [(''Content-Type'', ''application/json'')], data = kw \<rparr>"
  "call_of sample_api ''get'' path kw =
     \<lparr> meth = ''get'', url = urljoin DRAFT_API_URL path, auth = (''user'', ''secret''),
       req_headers = [], data = kw \<rparr>"
  "call_of sample_api ''delete'' path kw =
     \<lparr> meth = ''delete'', url = urljoin DRAFT_API_URL path, auth = (''user'', ''secret''),
       req_headers = [], data = kw \<rparr>"
  by (simp_all add: call_of_def lower_literals sample_api_def DraftApi_init_def)

lemma update_saved_samples:
  "update (answering [Some (html_response 404 ''Not Found'')]) saved_doc (JStr ''new'') JNull []
     = (Inl (ApiError (DraftApiException_init (html_response 404 ''Not Found''))), saved_doc,
        [call_of sample_api ''put'' ''documents/7.json''
           (Some (json_dumps (JObj [(''content'', JStr ''new'')])))])"
  "update (answering [Some no_content, Some (html_response 404 ''Not Found'')])
       saved_doc (JStr ''new'') JNull []
     = (Inl (ApiError (DraftApiException_init (html_response 404 ''Not Found''))), saved_doc,
        [call_of sample_api ''put'' ''documents/7.json''
           (Some (json_dumps (JObj [(''content'', JStr ''new'')]))),
         call_of sample_api ''get'' ''/documents/7.json'' None])"
proof -
  have g: "getattr_data saved_doc ''id'' = Inr (JInt 7)"
    by (rule objid_truthy_getattr [OF objid_samples(2)]) simp
  show "update (answering [Some (html_response 404 ''Not Found'')]) saved_doc (JStr ''new'') JNull []
     = (Inl (ApiError (DraftApiException_init (html_response 404 ''Not Found''))), saved_doc,
        [call_of sample_api ''put'' ''documents/7.json''
           (Some (json_dumps (JObj [(''content'', JStr ''new'')])))])"
    by (simp add: update_def objid_samples g api_samples request_known answering_nth
        outcome_samples percent_s_def str_int_samples)
  show "update (answering [Some no_content, Some (html_response 404 ''Not Found'')])
       saved_doc (JStr ''new'') JNull []
     = (Inl (ApiError (DraftApiException_init (html_response 404 ''Not Found''))), saved_doc,
        [call_of sample_api ''put'' ''documents/7.json''
           (Some (json_dumps (JObj [(''content'', JStr ''new'')]))),
         call_of sample_api ''get'' ''/documents/7.json'' None])"
    by (simp add: update_def refresh_def get_document_def objid_samples g api_samples
        request_known answering_nth outcome_samples percent_s_def str_int_samples)
qed

lemma failing_samples:
  "createdoc (answering [Some (html_response 404 ''Not Found'')]) unsaved_doc (JStr ''new'') JNull []
     = (Inl (ApiError (DraftApiException_init (html_response 404 ''Not Found''))), unsaved_doc,
        [call_of sample_api ''post'' ''documents.json''
           (Some (json_dumps (JObj [(''content'', JStr ''new'')])))])"
  "delete (answering [Some (html_response 404 ''Not Found'')]) saved_doc []
     = (Inl (ApiError (DraftApiException_init (html_response 404 ''Not Found''))), saved_doc,
        [call_of sample_api ''delete'' ''documents/7.json'' None])"
  "refresh (answering [Some (html_response 404 ''Not Found'')]) saved_doc []
     = (Inl (ApiError (DraftApiException_init (html_response 404 ''Not Found''))), saved_doc,
        [call_of sample_api ''get'' ''/documents/7.json'' None])"
proof -
  have g: "getattr_data saved_doc ''id'' = Inr (JInt 7)"
    by (rule objid_truthy_getattr [OF objid_samples(2)]) simp
  have p: "percent_s E (JInt 7) = ''7''" for E
    by (simp add: percent_s_def str_int_samples)
  show "createdoc (answering [Some (html_response 404 ''Not Found'')]) unsaved_doc (JStr ''new'') JNull []
     = (Inl (ApiError (DraftApiException_init (html_response 404 ''Not Found''))), unsaved_doc,
        [call_of sample_api ''post'' ''documents.json''
           (Some (json_dumps (JObj [(''content'', JStr ''new'')])))])"
    by (simp add: createdoc_unfold doc_args_empty_name api_samples request_known answering_nth
        outcome_samples)
  show "delete (answering [Some (html_response 404 ''Not Found'')]) saved_doc []
     = (Inl (ApiError (DraftApiException_init (html_response 404 ''Not Found''))), saved_doc,
        [call_of sample_api ''delete'' ''documents/7.json'' None])"
    by (simp add: delete_def objid_samples g api_samples request_known answering_nth
        outcome_samples p)
  show "refresh (answering [Some (html_response 404 ''Not Found'')]) saved_doc []
     = (Inl (ApiError (DraftApiException_init (html_response 404 ''Not Found''))), saved_doc,
        [call_of sample_api ''get'' ''/documents/7.json'' None])"
    by (simp add: refresh_def get_document_def objid_samples g api_samples request_known
        answering_nth outcome_samples p)
qed

lemma data_samples:
  "obj_data saved_doc
     = JObj [(''id'', JInt 7), (''content'', JStr ''old''), (''name'', JStr ''notes'')]"
  "obj_data unsaved_doc = JNull"
  by (simp_all add: saved_doc_def unsaved_doc_def BaseDraftObj_init_def)

text \<open>
  A new entity has no id, and \<open>create\<close> makes the calls of its \<open>update\<close>.
\<close>

lemma objid_new: "objid (BaseDraftObj_init a JNull) = Inr JNull"
  by (simp add: objid_def getattr_or_None_def getattr_data_def BaseDraftObj_init_def)

lemma create_calls:
  "snd (create E a content name tr) = snd (snd (update E (BaseDraftObj_init a JNull) content name tr))"
  by (simp add: create_def split: prod.split sum.split)

subsection \<open>The claims on documents\<close>

text \<open>
  C1, for every document id and at the id 5. \<open>document\<close> (through \<open>from_id\<close>) makes
  one call, a GET of the path \<^verbatim>\<open>/documents/{id}.json\<close>; so does \<open>refresh\<close>. The path
  starts with a slash, so it replaces the path of the base URL: for the id 5 the URL
  is \<^verbatim>\<open>https://draftin.com/documents/5.json\<close>. The path \<^verbatim>\<open>documents/5.json\<close> resolves to
  \<^verbatim>\<open>https://draftin.com/api/v1/documents/5.json\<close>, which is where the PUT and the DELETE
  of the same document go.
\<close>

theorem C1_fetch_leaves_api_root:
  "snd (document E a docid tr)
     = tr @ [call_of a ''get'' (''/documents/'' @ percent_s E docid @ ''.json'') None] \<and>
   snd (document E (DraftApi_init user password) (JInt 5) tr)
     = tr @ [\<lparr> meth = ''get'', url = ''https://draftin.com/documents/5.json'',
                auth = (user, password), req_headers = [], data = None \<rparr>] \<and>
   snd (snd (refresh E (BaseDraftObj_init (DraftApi_init user password)
                          (JObj [(''id'', JInt 5)])) tr))
     = tr @ [\<lparr> meth = ''get'', url = ''https://draftin.com/documents/5.json'',
                auth = (user, password), req_headers = [], data = None \<rparr>] \<and>
   urljoin DRAFT_API_URL ''documents/5.json'' = ''https://draftin.com/api/v1/documents/5.json''"
proof -
  have c: "call_of (DraftApi_init user password) ''get'' ''/documents/5.json'' None
             = \<lparr> meth = ''get'', url = ''https://draftin.com/documents/5.json'',
                 auth = (user, password), req_headers = [], data = None \<rparr>"
    by (simp add: call_of_def lower_literals DraftApi_init_def urljoin_samples)
  have o: "objid (BaseDraftObj_init (DraftApi_init user password) (JObj [(''id'', JInt 5)]))
             = Inr (JInt 5)"
    by (simp add: objid_def getattr_or_None_def getattr_data_def BaseDraftObj_init_def)
  have a: "api (BaseDraftObj_init (DraftApi_init user password) (JObj [(''id'', JInt 5)]))
             = DraftApi_init user password"
    by (simp add: BaseDraftObj_init_def)
  have g: "snd (document E b docid tr)
     = tr @ [call_of b ''get'' (''/documents/'' @ percent_s E docid @ ''.json'') None]"
    for b docid
    by (simp add: document_def from_id_def get_document_def request_known split: sum.split)
  have p: "percent_s E (JInt 5) = ''5''"
    by (simp add: percent_s_def str_int_samples)
  have d: "snd (document E (DraftApi_init user password) (JInt 5) tr)
     = tr @ [\<lparr> meth = ''get'', url = ''https://draftin.com/documents/5.json'',
                auth = (user, password), req_headers = [], data = None \<rparr>]"
    using g [of "DraftApi_init user password" "JInt 5"] by (simp add: p c)
  have r: "snd (snd (refresh E (BaseDraftObj_init (DraftApi_init user password)
                          (JObj [(''id'', JInt 5)])) tr))
     = tr @ [\<lparr> meth = ''get'', url = ''https://draftin.com/documents/5.json'',
                auth = (user, password), req_headers = [], data = None \<rparr>]"
    by (simp add: refresh_truthy [OF o] a get_document_def request_known p c split: sum.split)
  show ?thesis using g d r by (simp add: urljoin_samples)
qed




text \<open>
  C6. When the creation, \<open>update\<close>, \<open>delete\<close> or \<open>refresh\<close> raises, the exception of
  the module on a failing response included, the entity after the call is the entity
  before it: its backing data is unchanged.
\<close>

theorem C6_failed_call_keeps_entity:
  "(fst (createdoc E self content name tr) = Inl e \<longrightarrow>
      fst (snd (createdoc E self content name tr)) = self) \<and>
   (fst (update E self content name tr) = Inl e \<longrightarrow>
      fst (snd (update E self content name tr)) = self) \<and>
   (fst (delete E self tr) = Inl e \<longrightarrow> fst (snd (delete E self tr)) = self) \<and>
   (fst (refresh E self tr) = Inl e \<longrightarrow> fst (snd (refresh E self tr)) = self)"
  using createdoc_error [of E self content name tr e] update_error [of E self content name tr e]
    delete_error [of E self tr e] refresh_error [of E self tr e]
  by blast

text \<open>
  Calls answered 404: an update whose PUT fails, an update whose PUT succeeds and
  whose fetch fails, a creation, a deletion and a refresh. Each raises the exception
  of the module and keeps the old data.
\<close>

theorem C6_witness:
  "fst (update (answering [Some (html_response 404 ''Not Found'')]) saved_doc (JStr ''new'') JNull [])
     = Inl (ApiError (DraftApiException_init (html_response 404 ''Not Found''))) \<and>
   obj_data (fst (snd (update (answering [Some (html_response 404 ''Not Found'')])
                         saved_doc (JStr ''new'') JNull [])))
     = JObj [(''id'', JInt 7), (''content'', JStr ''old''), (''name'', JStr ''notes'')] \<and>
   fst (update (answering [Some no_content, Some (html_response 404 ''Not Found'')])
          saved_doc (JStr ''new'') JNull [])
     = Inl (ApiError (DraftApiException_init (html_response 404 ''Not Found''))) \<and>
   obj_data (fst (snd (update (answering [Some no_content, Some (html_response 404 ''Not Found'')])
                         saved_doc (JStr ''new'') JNull [])))
     = JObj [(''id'', JInt 7), (''content'', JStr ''old''), (''name'', JStr ''notes'')] \<and>
   fst (createdoc (answering [Some (html_response 404 ''Not Found'')])
          unsaved_doc (JStr ''new'') JNull [])
     = Inl (ApiError (DraftApiException_init (html_response 404 ''Not Found''))) \<and>
   obj_data (fst (snd (createdoc (answering [Some (html_response 404 ''Not Found'')])
                         unsaved_doc (JStr ''new'') JNull []))) = JNull \<and>
   fst (delete (answering [Some (html_response 404 ''Not Found'')]) saved_doc [])
     = Inl (ApiError (DraftApiException_init (html_response 404 ''Not Found''))) \<and>
   obj_data (fst (snd (delete (answering [Some (html_response 404 ''Not Found'')]) saved_doc [])))
     = JObj [(''id'', JInt 7), (''content'', JStr ''old''), (''name'', JStr ''notes'')] \<and>
   fst (refresh (answering [Some (html_response 404 ''Not Found'')]) saved_doc [])
     = Inl (ApiError (DraftApiException_init (html_response 404 ''Not Found''))) \<and>
   obj_data (fst (snd (refresh (answering [Some (html_response 404 ''Not Found'')]) saved_doc [])))
     = JObj [(''id'', JInt 7), (''content'', JStr ''old''), (''name'', JStr ''notes'')]"
proof -
  let ?e = "ApiError (DraftApiException_init (html_response 404 ''Not Found''))"
  let ?E = "answering [Some (html_response 404 ''Not Found'')]"
  let ?E2 = "answering [Some no_content, Some (html_response 404 ''Not Found'')]"
  have u1: "fst (update ?E saved_doc (JStr ''new'') JNull []) = Inl ?e"
    by (simp add: update_saved_samples(1))
  have u2: "fst (update ?E2 saved_doc (JStr ''new'') JNull []) = Inl ?e"
    by (simp add: update_saved_samples(2))
  have c: "fst (createdoc ?E unsaved_doc (JStr ''new'') JNull []) = Inl ?e"
    by (simp add: failing_samples(1))
  have d: "fst (delete ?E saved_doc []) = Inl ?e"
    by (simp add: failing_samples(2))
  have r: "fst (refresh ?E saved_doc []) = Inl ?e"
    by (simp add: failing_samples(3))
  have k1: "fst (snd (update ?E saved_doc (JStr ''new'') JNull [])) = saved_doc"
    using C6_failed_call_keeps_entity [of ?E saved_doc "JStr ''new''" JNull "[]" ?e] u1
    by blast
  have k2: "fst (snd (update ?E2 saved_doc (JStr ''new'') JNull [])) = saved_doc"
    using C6_failed_call_keeps_entity [of ?E2 saved_doc "JStr ''new''" JNull "[]" ?e] u2
    by blast
  have k3: "fst (snd (createdoc ?E unsaved_doc (JStr ''new'') JNull [])) = unsaved_doc"
    using C6_failed_call_keeps_entity [of ?E unsaved_doc "JStr ''new''" JNull "[]" ?e] c
    by blast
  have k4: "fst (snd (delete ?E saved_doc [])) = saved_doc"
    using C6_failed_call_keeps_entity [of ?E saved_doc "JStr ''new''" JNull "[]" ?e] d
    by blast
  have k5: "fst (snd (refresh ?E saved_doc [])) = saved_doc"
    using C6_failed_call_keeps_entity [of ?E saved_doc "JStr ''new''" JNull "[]" ?e] r
    by blast
  show ?thesis
    by (simp only: u1 u2 c d r k1 k2 k3 k4 k5 data_samples simp_thms)
qed

text \<open>
  C8, as the code has it. For a document whose \<open>objid()\<close> is false (\<^verbatim>\<open>None\<close>, or a
  false id such as 0 or the empty string), \<open>delete\<close> returns, \<open>savepoints\<close> returns
  the empty list and \<open>createsave\<close> returns \<^verbatim>\<open>None\<close>, each with no call made. When
  \<open>objid()\<close> is true each makes exactly one call: DELETE \<^verbatim>\<open>documents/{id}.json\<close>, GET
  \<^verbatim>\<open>documents/{id}/savepoints.json\<close> and POST \<^verbatim>\<open>documents/{id}/savepoints.json\<close>.
\<close>

theorem C8_calls_on_truth_of_id:
  assumes "objid self = Inr i"
  shows "(\<not> truthy i \<longrightarrow>
            delete E self tr = (Inr (), self, tr) \<and>
            savepoints E self tr = (Inr [], tr) \<and>
            createsave E self tr = (Inr JNull, tr)) \<and>
         (truthy i \<longrightarrow>
            snd (snd (delete E self tr)) =
              tr @ [call_of (api self) ''delete'' (''documents/'' @ percent_s E i @ ''.json'') None] \<and>
            snd (savepoints E self tr) =
              tr @ [call_of (api self) ''get''
                      (''documents/'' @ percent_s E i @ ''/savepoints.json'') None] \<and>
            snd (createsave E self tr) =
              tr @ [call_of (api self) ''post''
                      (''documents/'' @ percent_s E i @ ''/savepoints.json'') None])"
proof (cases "truthy i")
  case False
  then show ?thesis
    using assms by (simp add: delete_def savepoints_def createsave_def)
next
  case True
  have g: "getattr_data self ''id'' = Inr i"
    by (rule objid_truthy_getattr [OF assms True])
  have p: "call_of a ''POST'' path kw = call_of a ''post'' path kw" for a path kw
    by (simp add: call_of_def lower_literals)
  have d: "snd (snd (delete E self tr)) =
             tr @ [call_of (api self) ''delete'' (''documents/'' @ percent_s E i @ ''.json'') None]"
    using assms True g by (simp add: delete_def request_known split: sum.split)
  have s: "snd (savepoints E self tr) =
             tr @ [call_of (api self) ''get''
                     (''documents/'' @ percent_s E i @ ''/savepoints.json'') None]"
    using assms True g by (simp add: savepoints_def request_known split: sum.split)
  have c: "snd (createsave E self tr) =
             tr @ [call_of (api self) ''post''
                     (''documents/'' @ percent_s E i @ ''/savepoints.json'') None]"
    using assms True g by (simp add: createsave_def request_known p)
  show ?thesis using True d s c by simp
qed

text \<open>
  The unsaved entity makes no call; the entity with the id 7 makes one call per method.
\<close>

theorem C8_witness:
  "delete (answering [Some no_content]) unsaved_doc [] = (Inr (), unsaved_doc, []) \<and>
   savepoints (answering [Some no_content]) unsaved_doc [] = (Inr [], []) \<and>
   createsave (answering [Some no_content]) unsaved_doc [] = (Inr JNull, []) \<and>
   snd (snd (delete (answering [Some no_content]) saved_doc []))
     = [\<lparr> meth = ''delete'', url = ''https://draftin.com/api/v1/documents/7.json'',
           auth = (''user'', ''secret''), req_headers = [], data = None \<rparr>] \<and>
   snd (savepoints (answering [Some no_content]) saved_doc [])
     = [\<lparr> meth = ''get'', url = ''https://draftin.com/api/v1/documents/7/savepoints.json'',
           auth = (''user'', ''secret''), req_headers = [], data = None \<rparr>] \<and>
   snd (createsave (answering [Some no_content]) saved_doc [])
     = [\<lparr> meth = ''post'', url = ''https://draftin.com/api/v1/documents/7/savepoints.json'',
           auth = (''user'', ''secret''),
           req_headers = [(''Content-Type'', ''application/json'')], data = None \<rparr>]"
proof -
  have t: "\<not> truthy JNull" "truthy (JInt 7)" by simp_all
  show ?thesis
    using C8_calls_on_truth_of_id [OF objid_samples(1), of "answering [Some no_content]" "[]"]
      C8_calls_on_truth_of_id [OF objid_samples(2), of "answering [Some no_content]" "[]"]
    by (simp add: t api_samples call_of_sample percent_s_def str_int_samples urljoin_samples)
qed

text \<open>
  The entity with the id 0 again: the id is present, and none of the three methods
  makes a call.
\<close>

theorem C8_counterexample:
  "objid zero_id_doc = Inr (JInt 0) \<and>
   delete (answering [Some no_content]) zero_id_doc [] = (Inr (), zero_id_doc, []) \<and>
   savepoints (answering [Some no_content]) zero_id_doc [] = (Inr [], []) \<and>
   createsave (answering [Some no_content]) zero_id_doc [] = (Inr JNull, [])"
  by (simp add: objid_samples delete_def savepoints_def createsave_def)

text \<open>
  C9. With the empty string as name, the creation, \<open>update\<close> and the client's
  \<open>create\<close> do what they do with no name (\<^verbatim>\<open>None\<close>): the result, the entity and the
  calls are the same. The creation and \<open>create\<close> make one call, a POST of
  \<^verbatim>\<open>documents.json\<close> whose body is the serialised dictionary with the one key
  \<^verbatim>\<open>content\<close>; so does \<open>update\<close> for an entity whose id is false. For an entity whose
  id is true the first call of \<open>update\<close> is the PUT with that body, and for an entity
  whose \<open>objid()\<close> raises \<open>update\<close> raises the same error with no call.
\<close>

theorem C9_empty_name_is_no_name:
  "createdoc E self content (JStr []) tr = createdoc E self content JNull tr \<and>
   update E self content (JStr []) tr = update E self content JNull tr \<and>
   create E a content (JStr []) tr = create E a content JNull tr \<and>
   snd (snd (createdoc E self content (JStr []) tr)) =
     tr @ [call_of (api self) ''post'' ''documents.json''
             (Some (json_dumps (JObj [(''content'', content)])))] \<and>
   snd (create E a content (JStr []) tr) =
     tr @ [call_of a ''post'' ''documents.json''
             (Some (json_dumps (JObj [(''content'', content)])))] \<and>
   (objid self = Inr i \<and> \<not> truthy i \<longrightarrow>
      snd (snd (update E self content (JStr []) tr)) =
        tr @ [call_of (api self) ''post'' ''documents.json''
                (Some (json_dumps (JObj [(''content'', content)])))]) \<and>
   (objid self = Inr i \<and> truthy i \<longrightarrow>
      take (Suc (length tr)) (snd (snd (update E self content (JStr []) tr))) =
        tr @ [call_of (api self) ''put'' (''documents/'' @ percent_s E i @ ''.json'')
                (Some (json_dumps (JObj [(''content'', content)])))]) \<and>
   (objid self = Inl e \<longrightarrow> update E self content (JStr []) tr = (Inl e, self, tr))"
proof -
  have a: "createdoc E s content (JStr []) tr = createdoc E s content JNull tr" for s
    by (simp add: createdoc_unfold doc_args_empty_name)
  have b: "update E s content (JStr []) tr = update E s content JNull tr" for s
    by (simp add: update_def a Let_def split: sum.split)
  have b': "create E a content (JStr []) tr = create E a content JNull tr"
    by (simp add: create_def b)
  have c: "snd (snd (createdoc E self content (JStr []) tr)) =
     tr @ [call_of (api self) ''post'' ''documents.json''
             (Some (json_dumps (JObj [(''content'', content)])))]"
    by (simp add: createdoc_unfold doc_args_empty_name request_known split: sum.split)
  have f: "snd (snd (update E s content (JStr []) tr)) =
        tr @ [call_of (api s) ''post'' ''documents.json''
                (Some (json_dumps (JObj [(''content'', content)])))]"
    if "objid s = Inr j" and "\<not> truthy j" for s j
    using that
    by (simp add: update_falsy doc_args_empty_name request_known split: sum.split)
  have c': "snd (create E a content (JStr []) tr) =
     tr @ [call_of a ''post'' ''documents.json''
             (Some (json_dumps (JObj [(''content'', content)])))]"
    using f [OF objid_new, of a] by (simp add: create_calls BaseDraftObj_init_def)
  have d: "take (Suc (length tr)) (snd (snd (update E self content (JStr []) tr))) =
        tr @ [call_of (api self) ''put'' (''documents/'' @ percent_s E i @ ''.json'')
                (Some (json_dumps (JObj [(''content'', content)])))]"
    if "objid self = Inr i" and "truthy i"
    using that
    by (simp add: update_truthy doc_args_empty_name get_document_def request_known
        split: sum.split)
  have g: "update E self content (JStr []) tr = (Inl e, self, tr)" if "objid self = Inl e"
    using that by (simp add: update_def)
  show ?thesis using a b b' c c' f [of self i] d g by blast
qed

text \<open>
  The saved entity updated with the empty name; the unsaved one created and updated
  with it; a document created by the client with it; and an entity whose backing
  data is the number 3.
\<close>

theorem C9_witness:
  "update (answering [Some no_content, Some (json_response 200 ''{}'' (Some fetched_data))])
     saved_doc (JStr ''new'') (JStr []) []
     = update (answering [Some no_content, Some (json_response 200 ''{}'' (Some fetched_data))])
         saved_doc (JStr ''new'') JNull [] \<and>
   take 1 (snd (snd (update
      (answering [Some no_content, Some (json_response 200 ''{}'' (Some fetched_data))])
      saved_doc (JStr ''new'') (JStr []) [])))
     = [\<lparr> meth = ''put'', url = ''https://draftin.com/api/v1/documents/7.json'',
           auth = (''user'', ''secret''),
           req_headers = [(''Content-Type'', ''application/json'')],
           data = Some (json_dumps (JObj [(''content'', JStr ''new'')])) \<rparr>] \<and>
   snd (snd (createdoc (answering [Some (json_response 200 ''{}'' (Some fetched_data))])
      unsaved_doc (JStr ''new'') (JStr []) []))
     = [\<lparr> meth = ''post'', url = ''https://draftin.com/api/v1/documents.json'',
           auth = (''user'', ''secret''),
           req_headers = [(''Content-Type'', ''application/json'')],
           data = Some (json_dumps (JObj [(''content'', JStr ''new'')])) \<rparr>] \<and>
   snd (snd (update (answering [Some (json_response 200 ''{}'' (Some fetched_data))])
      unsaved_doc (JStr ''new'') (JStr []) []))
     = [\<lparr> meth = ''post'', url = ''https://draftin.com/api/v1/documents.json'',
           auth = (''user'', ''secret''),
           req_headers = [(''Content-Type'', ''application/json'')],
           data = Some (json_dumps (JObj [(''content'', JStr ''new'')])) \<rparr>] \<and>
   snd (create (answering [Some (json_response 200 ''{}'' (Some fetched_data))])
      sample_api (JStr ''new'') (JStr []) [])
     = [\<lparr> meth = ''post'', url = ''https://draftin.com/api/v1/documents.json'',
           auth = (''user'', ''secret''),
           req_headers = [(''Content-Type'', ''application/json'')],
           data = Some (json_dumps (JObj [(''content'', JStr ''new'')])) \<rparr>] \<and>
   update (answering [Some (json_response 200 ''{}'' (Some fetched_data))])
      (BaseDraftObj_init sample_api (JInt 3)) (JStr ''new'') (JStr []) []
     = (Inl TypeError, BaseDraftObj_init sample_api (JInt 3), [])"
proof -
  let ?E = "answering [Some no_content, Some (json_response 200 ''{}'' (Some fetched_data))]"
  let ?E' = "answering [Some (json_response 200 ''{}'' (Some fetched_data))]"
  let ?post = "\<lparr> meth = ''post'', url = ''https://draftin.com/api/v1/documents.json'',
           auth = (''user'', ''secret''),
           req_headers = [(''Content-Type'', ''application/json'')],
           data = Some (json_dumps (JObj [(''content'', JStr ''new'')])) \<rparr>"
  note saved =
    C9_empty_name_is_no_name [where E = ?E and self = saved_doc and content = "JStr ''new''" and tr = "[]"
        and a = sample_api and i = "JInt 7" and e = TypeError]
  note unsaved =
    C9_empty_name_is_no_name [where E = ?E' and self = unsaved_doc and content = "JStr ''new''" and tr = "[]"
        and a = sample_api and i = JNull and e = TypeError]
  note odd =
    C9_empty_name_is_no_name [where E = ?E' and self = "BaseDraftObj_init sample_api (JInt 3)"
        and content = "JStr ''new''" and tr = "[]" and a = sample_api and i = JNull
        and e = TypeError]
  have p: "call_of sample_api ''post'' ''documents.json''
             (Some (json_dumps (JObj [(''content'', JStr ''new'')]))) = ?post"
    by (simp add: call_of_sample urljoin_samples)
  have a: "update ?E saved_doc (JStr ''new'') (JStr []) []
             = update ?E saved_doc (JStr ''new'') JNull []"
    using saved by blast
  have "objid saved_doc = Inr (JInt 7) \<and> truthy (JInt 7)"
    by (simp add: objid_samples)
  then have "take (Suc (length ([] :: http_request list)))
               (snd (snd (update ?E saved_doc (JStr ''new'') (JStr []) [])))
             = [] @ [call_of (api saved_doc) ''put'' (''documents/'' @ percent_s ?E (JInt 7) @ ''.json'')
                       (Some (json_dumps (JObj [(''content'', JStr ''new'')])))]"
    using saved by blast
  then have b: "take 1 (snd (snd (update ?E saved_doc (JStr ''new'') (JStr []) [])))
     = [\<lparr> meth = ''put'', url = ''https://draftin.com/api/v1/documents/7.json'',
           auth = (''user'', ''secret''),
           req_headers = [(''Content-Type'', ''application/json'')],
           data = Some (json_dumps (JObj [(''content'', JStr ''new'')])) \<rparr>]"
    by (simp add: api_samples call_of_sample percent_s_def str_int_samples urljoin_samples)
  have "snd (snd (createdoc ?E' unsaved_doc (JStr ''new'') (JStr []) []))
          = [] @ [call_of (api unsaved_doc) ''post'' ''documents.json''
                    (Some (json_dumps (JObj [(''content'', JStr ''new'')])))]"
    using unsaved by blast
  then have c: "snd (snd (createdoc ?E' unsaved_doc (JStr ''new'') (JStr []) [])) = [?post]"
    by (simp add: api_samples p)
  have "objid unsaved_doc = Inr JNull \<and> \<not> truthy JNull"
    by (simp add: objid_samples)
  then have "snd (snd (update ?E' unsaved_doc (JStr ''new'') (JStr []) []))
          = [] @ [call_of (api unsaved_doc) ''post'' ''documents.json''
                    (Some (json_dumps (JObj [(''content'', JStr ''new'')])))]"
    using unsaved by blast
  then have d: "snd (snd (update ?E' unsaved_doc (JStr ''new'') (JStr []) [])) = [?post]"
    by (simp add: api_samples p)
  have "snd (create ?E' sample_api (JStr ''new'') (JStr []) [])
          = [] @ [call_of sample_api ''post'' ''documents.json''
                    (Some (json_dumps (JObj [(''content'', JStr ''new'')])))]"
    using unsaved by blast
  then have f: "snd (create ?E' sample_api (JStr ''new'') (JStr []) []) = [?post]"
    by (simp add: p)
  have "objid (BaseDraftObj_init sample_api (JInt 3)) = Inl TypeError"
    by (simp add: objid_def getattr_or_None_def getattr_data_def BaseDraftObj_init_def)
  then have g: "update ?E' (BaseDraftObj_init sample_api (JInt 3)) (JStr ''new'') (JStr []) []
                  = (Inl TypeError, BaseDraftObj_init sample_api (JInt 3), [])"
    using odd by blast
  show ?thesis using a b c d f g by blast
qed

end
